theory Spec2Isabelle
  imports Main
begin

section \<open>Errors\<close>

text \<open>
  The domain errors of \<^verbatim>\<open>src/errors.py\<close> that the authentication core raises, and the
  exceptions that come from outside the repository: \<open>HTTPException\<close> (raised by FastAPI's
  \<^verbatim>\<open>HTTPBearer\<close>, with its status code), \<open>NotImplementedError\<close> (the base class's
  \<^verbatim>\<open>verify_token_data\<close>), \<open>AttributeError\<close> (Python's attribute access on \<^verbatim>\<open>None\<close>),
  \<open>IntegrityError\<close> (a commit that breaks a key constraint of the database),
  \<open>FlushError\<close> (a commit that the ORM refuses) and \<open>ClientError\<close> (a failed call of the
  geolocation service).
\<close>

datatype error =
    InvalidToken
  | AccessTokenRequired
  | RefreshTokenRequired
  | UserAlreadyExists
  | UserNotFound
  | UnknownIpConflict
  | BannedIp
  | ProxyConflict
  | UserBlocked
  | InsufficientPermission
  | HTTPException nat
  | NotImplementedError
  | AttributeError
  | IntegrityError
  | FlushError
  | ClientError

section \<open>Requests and the client address\<close>

text \<open>
  A request as \<^verbatim>\<open>get_ip_address\<close> reads it. \<open>headers\<close> is the header list in the order
  received, with the names in lower case (as the ASGI scope carries them; Starlette's
  \<^verbatim>\<open>Headers.get\<close> lower-cases the name it is asked for and returns the first match).
  \<open>hostname\<close> is \<^verbatim>\<open>request.url.hostname\<close> and \<open>client\<close> is the host of \<^verbatim>\<open>request.client\<close>;
  both are \<^verbatim>\<open>None\<close> when the URL has no host, respectively when the server gives no
  peer address.
\<close>

record request =
  headers :: "(string \<times> string) list"
  hostname :: "string option"
  client :: "string option"

definition headers_get :: "request \<Rightarrow> string \<Rightarrow> string option" where
  "headers_get req name = map_of (headers req) name"

text \<open>
  Python's \<^verbatim>\<open>str.isspace\<close> on the code points of a header value (decoded as latin-1, so
  one \<open>char\<close> each): TAB to CR, FS to US, space, NEL and NBSP.
\<close>

definition isspace :: "char \<Rightarrow> bool" where
  "isspace c =
     (let n = (of_char c :: nat)
      in (9 \<le> n \<and> n \<le> 13) \<or> (28 \<le> n \<and> n \<le> 32) \<or> n = 133 \<or> n = 160)"

definition strip :: "string \<Rightarrow> string" where
  "strip s = rev (dropWhile isspace (rev (dropWhile isspace s)))"

text \<open>\<^verbatim>\<open>s.split(',')[0]\<close>: the text before the first comma (all of it when there is none).\<close>

definition split_first :: "string \<Rightarrow> string" where
  "split_first s = takeWhile (\<lambda>c. c \<noteq> CHR '','') s"

text \<open>
  Python's \<^verbatim>\<open>a or b\<close> on values that are \<^verbatim>\<open>None\<close> or a string: \<open>a\<close> when it is truthy
  (a non-empty string), else \<open>b\<close>.
\<close>

definition truthy :: "string option \<Rightarrow> bool" where
  "truthy a = (case a of None \<Rightarrow> False | Some s \<Rightarrow> s \<noteq> [])"

definition py_or :: "string option \<Rightarrow> string option \<Rightarrow> string option" where
  "py_or a b = (if truthy a then a else b)"

definition recognized_hosts :: "string list" where
  "recognized_hosts = [''localhost'', ''api.jeremiahedavid.online'', ''api.jeremiahedavid.com.ng'']"

text \<open>
  \<^verbatim>\<open>get_ip_address\<close> (\<^verbatim>\<open>dependencies.py\<close>, lines 107 to 117). The default argument
  \<^verbatim>\<open>request.client.host\<close> of \<^verbatim>\<open>headers.get("X-Real-IP", ...)\<close> is evaluated before the
  lookup, so a request without a peer address raises \<open>AttributeError\<close> on that branch
  whether or not the header is there.
\<close>

definition get_ip_address :: "request \<Rightarrow> error + string option" where
  "get_ip_address req =
     (let ip = headers_get req ''next-ip''
      in if ip = None \<and> hostname req \<in> Some ` set recognized_hosts
         then (let ip = headers_get req ''x-forwarded-for''
               in if truthy ip
                  then Inr (py_or (map_option (\<lambda>v. strip (split_first v)) ip)
                                  (Some ''127.0.0.1''))
                  else (case client req of
                          None \<Rightarrow> Inl AttributeError
                        | Some host \<Rightarrow>
                            Inr (py_or (case headers_get req ''x-real-ip'' of
                                          None \<Rightarrow> Some host
                                        | Some v \<Rightarrow> Some v)
                                       (Some ''127.0.0.1''))))
         else Inr (py_or ip (Some ''127.0.0.1'')))"

section \<open>The bearer verifier\<close>

text \<open>
  The claims that \<^verbatim>\<open>decode_token\<close> returns: the \<^verbatim>\<open>user.email\<close> entry, the token id and the
  refresh flag. The dictionary is never empty (it has a \<^verbatim>\<open>jti\<close>), so it is truthy.
\<close>

record token_data =
  user_email :: string
  jti :: string
  refresh :: bool

text \<open>
  The collaborators whose code is outside the authentication module: FastAPI's
  \<^verbatim>\<open>HTTPBearer\<close> (the credentials of the \<^verbatim>\<open>Authorization\<close> header, or the status code of
  the \<open>HTTPException\<close> it raises), the token codec \<^verbatim>\<open>decode_token\<close> (\<^verbatim>\<open>None\<close> for a token
  that does not verify or has expired) and the revocation store \<^verbatim>\<open>token_in_blocklist\<close> for
  the verifier; the password hash and the geolocation lookup \<^verbatim>\<open>get_location\<close> (\<open>None\<close> when
  the HTTP call fails, which raises a client error) for registration. Each is a parameter
  of the model; \<^verbatim>\<open>decode_token\<close> is a function of the token, so the two calls that one
  verification makes agree.
\<close>

record LocationSchema =
  loc_country :: "string option"
  loc_country_code :: "string option"
  loc_country_calling_code :: "string option"
  loc_currency :: "string option"
  loc_in_eu :: bool

record env =
  http_bearer :: "request \<Rightarrow> nat + string"
  decode_token :: "string \<Rightarrow> token_data option"
  token_in_blocklist :: "string \<Rightarrow> bool"

record services =
  generateHashKey :: "string \<Rightarrow> string"
  get_location :: "string \<Rightarrow> LocationSchema option"

datatype bearer = TokenBearer | AccessTokenBearer | RefreshTokenBearer

text \<open>\<^verbatim>\<open>verify_token_data\<close> of the base class and of its two subclasses.\<close>

fun verify_token_data :: "bearer \<Rightarrow> token_data \<Rightarrow> error + unit" where
  "verify_token_data TokenBearer td = Inl NotImplementedError"
| "verify_token_data AccessTokenBearer td =
     (if refresh td then Inl AccessTokenRequired else Inr ())"
| "verify_token_data RefreshTokenBearer td =
     (if \<not> refresh td then Inl RefreshTokenRequired else Inr ())"

definition token_valid :: "env \<Rightarrow> string \<Rightarrow> bool" where
  "token_valid e token = (decode_token e token \<noteq> None)"

text \<open>\<^verbatim>\<open>TokenBearer.__call__\<close> (\<^verbatim>\<open>dependencies.py\<close>, lines 31 to 52).\<close>

definition bearer_call :: "env \<Rightarrow> bearer \<Rightarrow> request \<Rightarrow> error + token_data" where
  "bearer_call e b req =
     (case http_bearer e req of
        Inl status_code \<Rightarrow> Inl (HTTPException status_code)
      | Inr token \<Rightarrow>
          (case decode_token e token of
             None \<Rightarrow> Inl InvalidToken
           | Some td \<Rightarrow>
               (let token_is_valid = token_valid e token;
                    blocked = token_in_blocklist e (jti td)
                in if \<not> token_is_valid then Inl InvalidToken
                   else if blocked then Inl InvalidToken
                   else (case verify_token_data b td of
                           Inl err \<Rightarrow> Inl err
                         | Inr _ \<Rightarrow> Inr td))))"

section \<open>Users, IP rows and the stores\<close>

type_synonym uuid = nat

text \<open>The columns of \<^verbatim>\<open>users\<close> that the authentication and registration code reads or writes.\<close>

record User =
  uid :: uuid
  email :: string
  passwordHash :: string
  country :: "string option"
  countryCode :: "string option"
  countryCallingCode :: "string option"
  currency :: "string option"
  inEu :: bool
  isBlocked :: bool
  isCompany :: bool
  isSuperuser :: bool

record KnownIps =
  kn_uid :: uuid
  kn_ip :: string
  kn_userUid :: "uuid option"

record BannedIps =
  bn_uid :: uuid
  bn_ip :: string
  bn_userUid :: "uuid option"

text \<open>
  The committed rows of the three tables, and the verification codes kept in Redis. The
  relationship lists \<^verbatim>\<open>user.knownIps\<close> and \<^verbatim>\<open>user.bannedIps\<close> are views of the tables (the
  rows whose \<^verbatim>\<open>userUid\<close> is the user's), so they are not stored again.
\<close>

record stores =
  users :: "User list"
  known_ips :: "KnownIps list"
  banned_ips :: "BannedIps list"
  verification_codes :: "(uuid \<times> string) list"

text \<open>\<^verbatim>\<open>session.exec(select(...).where(...)).first()\<close>: the first matching row, if any.\<close>

definition select_first :: "('r \<Rightarrow> bool) \<Rightarrow> 'r list \<Rightarrow> 'r option" where
  "select_first p rows = find p rows"

section \<open>Identity and trust resolution\<close>

text \<open>
  Every operation on a session takes the stores and returns its result (or the error it
  raises) with the stores it leaves.
\<close>

text \<open>\<^verbatim>\<open>does_ip_exist\<close> (\<^verbatim>\<open>dependencies.py\<close>, lines 119 to 138).\<close>

definition does_ip_exist :: "User \<Rightarrow> request \<Rightarrow> stores \<Rightarrow> (error + unit) \<times> stores" where
  "does_ip_exist user req s =
     (case get_ip_address req of
        Inl err \<Rightarrow> (Inl err, s)
      | Inr ip \<Rightarrow>
          (case select_first (\<lambda>r. kn_userUid r = Some (uid user) \<and> Some (kn_ip r) = ip)
                  (known_ips s) of
             None \<Rightarrow> (Inl UnknownIpConflict, s)
           | Some new_ip \<Rightarrow>
               (case select_first (\<lambda>r. Some (bn_ip r) = ip \<and> bn_userUid r = Some (uid user))
                       (banned_ips s) of
                  Some banned_ip \<Rightarrow> (Inl BannedIp, s)
                | None \<Rightarrow> (Inr (), s))))"

text \<open>\<^verbatim>\<open>does_user_exist\<close> (\<^verbatim>\<open>dependencies.py\<close>, lines 74 to 85).\<close>

definition does_user_exist ::
  "string option \<Rightarrow> uuid option \<Rightarrow> request \<Rightarrow> stores \<Rightarrow> (error + User) \<times> stores" where
  "does_user_exist email_arg uid_arg req s =
     (let db_result = (case email_arg of
                         Some em \<Rightarrow> select_first (\<lambda>u. email u = em) (users s)
                       | None \<Rightarrow> select_first (\<lambda>u. Some (uid u) = uid_arg) (users s))
      in case db_result of
           None \<Rightarrow> (Inl UserNotFound, s)
         | Some user \<Rightarrow>
             (case does_ip_exist user req s of
                (Inl err, s') \<Rightarrow> (Inl err, s')
              | (Inr _, s') \<Rightarrow> (Inr user, s')))"

text \<open>
  \<^verbatim>\<open>get_current_user\<close> (\<^verbatim>\<open>dependencies.py\<close>, lines 140 to 146), on the claims that the
  access-token verifier returned.
\<close>

definition get_current_user :: "token_data \<Rightarrow> request \<Rightarrow> stores \<Rightarrow> (error + User) \<times> stores" where
  "get_current_user token_details req s =
     (case does_user_exist (Some (user_email token_details)) None req s of
        (Inl err, s') \<Rightarrow> (Inl err, s')
      | (Inr user, s') \<Rightarrow>
          (if isBlocked user then (Inl UserBlocked, s') else (Inr user, s')))"

text \<open>\<^verbatim>\<open>permission_check\<close> (\<^verbatim>\<open>dependencies.py\<close>, lines 148 to 151).\<close>

definition permission_check :: "User \<Rightarrow> error + User" where
  "permission_check current_user =
     (if \<not> isCompany current_user \<or> \<not> isSuperuser current_user
      then Inl InsufficientPermission
      else Inr current_user)"

section \<open>Registration and the allow-list\<close>

record UserCreateOrLoginSchema =
  form_email :: string
  form_password :: string

text \<open>\<^verbatim>\<open>UserService.get_user_by_email_or_uid\<close> (\<^verbatim>\<open>services.py\<close>, lines 34 to 44).\<close>

definition get_user_by_email_or_uid ::
  "string option \<Rightarrow> uuid option \<Rightarrow> stores \<Rightarrow> User option \<times> stores" where
  "get_user_by_email_or_uid email_arg uid_arg s =
     (case email_arg of
        Some em \<Rightarrow> (select_first (\<lambda>u. email u = em) (users s), s)
      | None \<Rightarrow>
          (case uid_arg of
             Some i \<Rightarrow> (select_first (\<lambda>u. uid u = i) (users s), s)
           | None \<Rightarrow> (None, s)))"

text \<open>
  \<^verbatim>\<open>session.add(row)\<close> followed by \<^verbatim>\<open>session.commit()\<close>. The insert fails with
  \<open>IntegrityError\<close> when it breaks a constraint of \<^verbatim>\<open>models.py\<close>: the primary key \<^verbatim>\<open>uid\<close>
  of either table, the unique \<^verbatim>\<open>email\<close> of \<^verbatim>\<open>users\<close>, the foreign key \<^verbatim>\<open>userUid\<close> of
  \<^verbatim>\<open>known_ips\<close>. There is no unique constraint on \<^verbatim>\<open>(ip, userUid)\<close>.
\<close>

definition commit_user :: "User \<Rightarrow> stores \<Rightarrow> (error + unit) \<times> stores" where
  "commit_user u s =
     (if list_ex (\<lambda>v. uid v = uid u \<or> email v = email u) (users s)
      then (Inl IntegrityError, s)
      else (Inr (), s\<lparr>users := users s @ [u]\<rparr>))"

definition commit_known_ip :: "KnownIps \<Rightarrow> stores \<Rightarrow> (error + unit) \<times> stores" where
  "commit_known_ip r s =
     (if list_ex (\<lambda>q. kn_uid q = kn_uid r) (known_ips s)
         \<or> (case kn_userUid r of
               None \<Rightarrow> False
             | Some i \<Rightarrow> \<not> list_ex (\<lambda>v. uid v = i) (users s))
      then (Inl IntegrityError, s)
      else (Inr (), s\<lparr>known_ips := known_ips s @ [r]\<rparr>))"

text \<open>\<^verbatim>\<open>store_verification_code\<close>: the Redis key of the user is set to the code.\<close>

definition store_verification_code :: "uuid \<Rightarrow> string \<Rightarrow> stores \<Rightarrow> stores" where
  "store_verification_code i code s =
     s\<lparr>verification_codes := (i, code) # filter (\<lambda>kv. fst kv \<noteq> i) (verification_codes s)\<rparr>"

text \<open>
  \<^verbatim>\<open>UserService.register_new_user\<close> (\<^verbatim>\<open>services.py\<close>, lines 64 to 112). The values drawn at
  random are arguments: \<open>new_uid\<close> and \<open>ip_uid\<close> (the \<^verbatim>\<open>uuid4\<close> defaults of the two rows) and
  \<open>code\<close> (\<^verbatim>\<open>generate_verification_code()\<close>).
\<close>

definition register_new_user ::
  "services \<Rightarrow> string \<Rightarrow> UserCreateOrLoginSchema \<Rightarrow> request \<Rightarrow> uuid \<Rightarrow> uuid \<Rightarrow> string \<Rightarrow>
   stores \<Rightarrow> (error + string) \<times> stores" where
  "register_new_user e permission form_data req new_uid ip_uid code s =
     (case get_user_by_email_or_uid (Some (form_email form_data)) None s of
        (user, s1) \<Rightarrow>
          (case get_ip_address req of
             Inl err \<Rightarrow> (Inl err, s1)
           | Inr None \<Rightarrow> (Inl ProxyConflict, s1)
           | Inr (Some ip) \<Rightarrow>
               (if user \<noteq> None then (Inl UserAlreadyExists, s1)
                else
                  (let new_user =
                         \<lparr>uid = new_uid, email = form_email form_data,
                          passwordHash = generateHashKey e (form_password form_data),
                          country = None, countryCode = None, countryCallingCode = None,
                          currency = None, inEu = False, isBlocked = False,
                          isCompany = False, isSuperuser = False\<rparr>;
                       new_user =
                         (if permission = ''company'' then new_user\<lparr>isCompany := True\<rparr>
                          else if permission = ''superuser''
                          then new_user\<lparr>isCompany := True, isSuperuser := True\<rparr>
                          else new_user)
                   in case get_location e ip of
                        None \<Rightarrow> (Inl ClientError, s1)
                      | Some location \<Rightarrow>
                          (let new_user = new_user
                                 \<lparr>country := loc_country location,
                                  countryCode := loc_country_code location,
                                  countryCallingCode := loc_country_calling_code location,
                                  inEu := loc_in_eu location,
                                  currency := loc_currency location\<rparr>
                           in case commit_user new_user s1 of
                                (Inl err, s2) \<Rightarrow> (Inl err, s2)
                              | (Inr _, s2) \<Rightarrow>
                                  (case commit_known_ip
                                          \<lparr>kn_uid = ip_uid, kn_ip = ip,
                                           kn_userUid = Some (uid new_user)\<rparr> s2 of
                                     (Inl err, s3) \<Rightarrow> (Inl err, s3)
                                   | (Inr _, s3) \<Rightarrow>
                                       (Inr code,
                                        store_verification_code (uid new_user) code s3)))))))"

text \<open>
  \<^verbatim>\<open>UserService.add_allowed_ip\<close> (\<^verbatim>\<open>services.py\<close>, lines 177 to 187). The second commit,
  after the row is appended to \<^verbatim>\<open>user.knownIps\<close>, writes nothing: the row is already
  stored with the user's \<^verbatim>\<open>userUid\<close>.
\<close>

definition add_allowed_ip :: "User \<Rightarrow> string \<Rightarrow> uuid \<Rightarrow> stores \<Rightarrow> (error + User) \<times> stores" where
  "add_allowed_ip user ip ip_uid s =
     (case commit_known_ip \<lparr>kn_uid = ip_uid, kn_ip = ip, kn_userUid = Some (uid user)\<rparr> s of
        (Inl err, s') \<Rightarrow> (Inl err, s')
      | (Inr _, s') \<Rightarrow> (Inr user, s'))"





section \<open>Example data\<close>

text \<open>
  The scenario of the specification: user \<open>u1\<close> registers from \<open>10.0.0.1\<close>. Requests carry
  their client address in the \<^verbatim>\<open>next-ip\<close> header.
\<close>

definition example_request :: "string \<Rightarrow> request" where
  "example_request ip =
     \<lparr>headers = [(''next-ip'', ip)], hostname = Some ''localhost'', client = Some ''10.9.9.9''\<rparr>"

definition example_services :: services where
  "example_services =
     \<lparr>generateHashKey = (\<lambda>p. ''hash:'' @ p),
      get_location = (\<lambda>ip. Some \<lparr>loc_country = Some ''Nigeria'', loc_country_code = Some ''NG'',
                                 loc_country_calling_code = Some ''+234'',
                                 loc_currency = Some ''NGN'', loc_in_eu = False\<rparr>)\<rparr>"

definition example_form :: UserCreateOrLoginSchema where
  "example_form = \<lparr>form_email = ''u1@example.com'', form_password = ''secret1''\<rparr>"

definition example_user :: User where
  "example_user =
     \<lparr>uid = 1, email = ''u1@example.com'', passwordHash = ''hash:secret1'',
      country = Some ''Nigeria'', countryCode = Some ''NG'', countryCallingCode = Some ''+234'',
      currency = Some ''NGN'', inEu = False, isBlocked = False, isCompany = False,
      isSuperuser = False\<rparr>"

definition empty_stores :: stores where
  "empty_stores = \<lparr>users = [], known_ips = [], banned_ips = [], verification_codes = []\<rparr>"

text \<open>
  A verifier environment with one token, \<open>token-1\<close>, issued to \<open>u1\<close>: an access or a refresh
  token, revoked or not.
\<close>

definition example_claims :: "bool \<Rightarrow> token_data" where
  "example_claims is_refresh =
     \<lparr>user_email = ''u1@example.com'', jti = ''jti-1'', refresh = is_refresh\<rparr>"

definition example_env :: "bool \<Rightarrow> bool \<Rightarrow> env" where
  "example_env is_refresh revoked =
     \<lparr>http_bearer = (\<lambda>req. Inr ''token-1''),
      decode_token = (\<lambda>t. if t = ''token-1'' then Some (example_claims is_refresh) else None),
      token_in_blocklist = (\<lambda>j. revoked \<and> j = ''jti-1'')\<rparr>"

text \<open>
  The stores after \<open>u1\<close> has registered from \<open>10.0.0.1\<close>, and the same stores with one
  address banned for \<open>u1\<close>.
\<close>

definition registered_stores :: stores where
  "registered_stores =
     snd (register_new_user example_services ''user'' example_form
            (example_request ''10.0.0.1'') 1 2 ''123456'' empty_stores)"

definition banned_stores :: "string \<Rightarrow> stores" where
  "banned_stores a =
     registered_stores\<lparr>banned_ips := [\<lparr>bn_uid = 7, bn_ip = a, bn_userUid = Some 1\<rparr>]\<rparr>"

section \<open>The client address\<close>

lemma py_or_default: "d \<noteq> [] \<Longrightarrow> \<exists>v. py_or a (Some d) = Some v \<and> v \<noteq> []"
  by (cases a) (auto simp: py_or_def truthy_def)

lemma py_or_Some: "py_or (Some v) (Some d) = Some (if v = [] then d else v)"
  by (simp add: py_or_def truthy_def)

lemma py_or_None: "py_or None b = b"
  by (simp add: py_or_def truthy_def)

lemma get_ip_address_result:
  "get_ip_address req = Inl AttributeError
   \<or> (\<exists>v. get_ip_address req = Inr (Some v) \<and> v \<noteq> [])"
proof -
  have d: "''127.0.0.1'' \<noteq> []" by simp
  note p = py_or_default [OF d]
  show ?thesis
    unfolding get_ip_address_def Let_def
    using p by (auto split: option.splits)
qed

lemma get_ip_address_peer:
  assumes "client req = Some h"
  shows "\<exists>v. get_ip_address req = Inr (Some v) \<and> v \<noteq> []"
proof -
  have d: "''127.0.0.1'' \<noteq> []" by simp
  note p = py_or_default [OF d]
  show ?thesis
    unfolding get_ip_address_def Let_def
    using p assms by (auto split: option.splits)
qed

lemma get_ip_address_not_None: "get_ip_address req \<noteq> Inr None"
  using get_ip_address_result [of req] by auto

lemma get_ip_address_Inl: "get_ip_address req = Inl err \<Longrightarrow> err = AttributeError"
  using get_ip_address_result [of req] by auto

text \<open>
  C6, as stated, fails: a \<^verbatim>\<open>next-ip\<close> header that is present with an empty value is not
  returned; the result is the loopback address.
\<close>

theorem get_ip_address_empty_next_ip_counterexample:
  "headers_get \<lparr>headers = [(''next-ip'', [])], hostname = Some ''example.org'',
                 client = Some ''10.0.0.9''\<rparr> ''next-ip'' = Some []
   \<and> get_ip_address \<lparr>headers = [(''next-ip'', [])], hostname = Some ''example.org'',
                      client = Some ''10.0.0.9''\<rparr> = Inr (Some ''127.0.0.1'')"
  by (simp add: get_ip_address_def headers_get_def py_or_def truthy_def)

text \<open>
  C6, amended: \<^verbatim>\<open>get_ip_address\<close> returns the \<^verbatim>\<open>next-ip\<close> header when it is present;
  otherwise, on a recognized host, the stripped first comma-separated entry of a non-empty
  \<^verbatim>\<open>X-Forwarded-For\<close>, else (with \<^verbatim>\<open>X-Forwarded-For\<close> absent or empty, for a request that has
  a peer address) the \<^verbatim>\<open>X-Real-IP\<close> header when present, else the peer address; a value
  that is the empty string is replaced by \<open>127.0.0.1\<close> in each case. On any other host
  without a \<^verbatim>\<open>next-ip\<close> header the result is \<open>127.0.0.1\<close>.
\<close>

theorem get_ip_address_precedence:
  "(headers_get req ''next-ip'' = Some v \<longrightarrow>
      get_ip_address req = Inr (Some (if v = [] then ''127.0.0.1'' else v)))
   \<and> (headers_get req ''next-ip'' = None
        \<and> hostname req \<in> {Some ''localhost'', Some ''api.jeremiahedavid.online'',
                           Some ''api.jeremiahedavid.com.ng''}
        \<and> headers_get req ''x-forwarded-for'' = Some f \<and> f \<noteq> [] \<longrightarrow>
      get_ip_address req =
        Inr (Some (if strip (split_first f) = [] then ''127.0.0.1''
                   else strip (split_first f))))
   \<and> (headers_get req ''next-ip'' = None
        \<and> hostname req \<in> {Some ''localhost'', Some ''api.jeremiahedavid.online'',
                           Some ''api.jeremiahedavid.com.ng''}
        \<and> headers_get req ''x-forwarded-for'' \<in> {None, Some []}
        \<and> client req = Some h \<and> headers_get req ''x-real-ip'' = Some r \<longrightarrow>
      get_ip_address req = Inr (Some (if r = [] then ''127.0.0.1'' else r)))
   \<and> (headers_get req ''next-ip'' = None
        \<and> hostname req \<in> {Some ''localhost'', Some ''api.jeremiahedavid.online'',
                           Some ''api.jeremiahedavid.com.ng''}
        \<and> headers_get req ''x-forwarded-for'' \<in> {None, Some []}
        \<and> client req = Some h \<and> headers_get req ''x-real-ip'' = None \<longrightarrow>
      get_ip_address req = Inr (Some (if h = [] then ''127.0.0.1'' else h)))
   \<and> (headers_get req ''next-ip'' = None
        \<and> hostname req \<notin> {Some ''localhost'', Some ''api.jeremiahedavid.online'',
                           Some ''api.jeremiahedavid.com.ng''} \<longrightarrow>
      get_ip_address req = Inr (Some ''127.0.0.1''))"
proof -
  have hosts: "Some ` set recognized_hosts =
      {Some ''localhost'', Some ''api.jeremiahedavid.online'', Some ''api.jeremiahedavid.com.ng''}"
    by (simp add: recognized_hosts_def)
  have c1: "headers_get req ''next-ip'' = Some v \<Longrightarrow>
      get_ip_address req = Inr (Some (if v = [] then ''127.0.0.1'' else v))"
    by (simp add: get_ip_address_def py_or_Some)
  have c2: "headers_get req ''next-ip'' = None \<Longrightarrow>
      hostname req \<in> Some ` set recognized_hosts \<Longrightarrow>
      headers_get req ''x-forwarded-for'' = Some f \<Longrightarrow> f \<noteq> [] \<Longrightarrow>
      get_ip_address req =
        Inr (Some (if strip (split_first f) = [] then ''127.0.0.1''
                   else strip (split_first f)))"
    by (simp add: get_ip_address_def py_or_Some truthy_def)
  have c3: "headers_get req ''next-ip'' = None \<Longrightarrow>
      hostname req \<in> Some ` set recognized_hosts \<Longrightarrow>
      headers_get req ''x-forwarded-for'' \<in> {None, Some []} \<Longrightarrow>
      client req = Some h \<Longrightarrow> headers_get req ''x-real-ip'' = Some r \<Longrightarrow>
      get_ip_address req = Inr (Some (if r = [] then ''127.0.0.1'' else r))"
    by (auto simp: get_ip_address_def py_or_Some truthy_def)
  have c4: "headers_get req ''next-ip'' = None \<Longrightarrow>
      hostname req \<in> Some ` set recognized_hosts \<Longrightarrow>
      headers_get req ''x-forwarded-for'' \<in> {None, Some []} \<Longrightarrow>
      client req = Some h \<Longrightarrow> headers_get req ''x-real-ip'' = None \<Longrightarrow>
      get_ip_address req = Inr (Some (if h = [] then ''127.0.0.1'' else h))"
    by (auto simp: get_ip_address_def py_or_Some truthy_def)
  have c5: "headers_get req ''next-ip'' = None \<Longrightarrow>
      hostname req \<notin> Some ` set recognized_hosts \<Longrightarrow>
      get_ip_address req = Inr (Some ''127.0.0.1'')"
    by (simp add: get_ip_address_def py_or_None)
  show ?thesis
    using c1 c2 c3 c4 c5 unfolding hosts by blast
qed

theorem get_ip_address_precedence_witness:
  "get_ip_address \<lparr>headers = [(''next-ip'', ''10.1.1.1''), (''x-forwarded-for'', ''10.2.2.2'')],
                    hostname = Some ''localhost'', client = Some ''10.0.0.9''\<rparr>
     = Inr (Some ''10.1.1.1'')
   \<and> get_ip_address \<lparr>headers = [(''x-forwarded-for'', '' 10.2.2.2 , 10.3.3.3''),
                               (''x-real-ip'', ''10.4.4.4'')],
                    hostname = Some ''api.jeremiahedavid.online'', client = Some ''10.0.0.9''\<rparr>
     = Inr (Some ''10.2.2.2'')
   \<and> get_ip_address \<lparr>headers = [(''x-real-ip'', ''10.4.4.4'')],
                    hostname = Some ''api.jeremiahedavid.com.ng'', client = Some ''10.0.0.9''\<rparr>
     = Inr (Some ''10.4.4.4'')
   \<and> get_ip_address \<lparr>headers = [], hostname = Some ''localhost'', client = Some ''10.0.0.9''\<rparr>
     = Inr (Some ''10.0.0.9'')
   \<and> get_ip_address \<lparr>headers = [(''x-forwarded-for'', ''10.2.2.2'')],
                    hostname = Some ''example.org'', client = Some ''10.0.0.9''\<rparr>
     = Inr (Some ''127.0.0.1'')"
  using
    get_ip_address_precedence
      [of "\<lparr>headers = [(''next-ip'', ''10.1.1.1''), (''x-forwarded-for'', ''10.2.2.2'')],
            hostname = Some ''localhost'', client = Some ''10.0.0.9''\<rparr>"
          "''10.1.1.1''" "[]" "[]" "[]"]
    get_ip_address_precedence
      [of "\<lparr>headers = [(''x-forwarded-for'', '' 10.2.2.2 , 10.3.3.3''),
                       (''x-real-ip'', ''10.4.4.4'')],
            hostname = Some ''api.jeremiahedavid.online'', client = Some ''10.0.0.9''\<rparr>"
          "[]" "'' 10.2.2.2 , 10.3.3.3''" "[]" "[]"]
    get_ip_address_precedence
      [of "\<lparr>headers = [(''x-real-ip'', ''10.4.4.4'')],
            hostname = Some ''api.jeremiahedavid.com.ng'', client = Some ''10.0.0.9''\<rparr>"
          "[]" "[]" "''10.0.0.9''" "''10.4.4.4''"]
    get_ip_address_precedence
      [of "\<lparr>headers = [], hostname = Some ''localhost'', client = Some ''10.0.0.9''\<rparr>"
          "[]" "[]" "''10.0.0.9''" "[]"]
    get_ip_address_precedence
      [of "\<lparr>headers = [(''x-forwarded-for'', ''10.2.2.2'')],
            hostname = Some ''example.org'', client = Some ''10.0.0.9''\<rparr>"
          "[]" "[]" "[]" "[]"]
  by (simp add: headers_get_def strip_def split_first_def isspace_def)

section \<open>Permissions\<close>

text \<open>
  C9: \<^verbatim>\<open>permission_check\<close> returns the current user when \<open>isCompany\<close> and \<open>isSuperuser\<close> are
  both true, and raises \<open>InsufficientPermission\<close> when either is false; a company account
  that is not a superuser is rejected.
\<close>

theorem permission_check_needs_both_flags:
  "(isCompany u \<and> isSuperuser u \<longrightarrow> permission_check u = Inr u)
   \<and> (\<not> isCompany u \<or> \<not> isSuperuser u \<longrightarrow>
        permission_check u = Inl InsufficientPermission)"
  by (simp add: permission_check_def)

theorem permission_check_needs_both_flags_witness:
  "permission_check (example_user\<lparr>isCompany := True, isSuperuser := True\<rparr>)
     = Inr (example_user\<lparr>isCompany := True, isSuperuser := True\<rparr>)
   \<and> permission_check (example_user\<lparr>isCompany := True\<rparr>) = Inl InsufficientPermission
   \<and> permission_check (example_user\<lparr>isSuperuser := True\<rparr>) = Inl InsufficientPermission"
  using
    permission_check_needs_both_flags
      [of "example_user\<lparr>isCompany := True, isSuperuser := True\<rparr>"]
    permission_check_needs_both_flags [of "example_user\<lparr>isCompany := True\<rparr>"]
    permission_check_needs_both_flags [of "example_user\<lparr>isSuperuser := True\<rparr>"]
  by (simp add: example_user_def)

section \<open>The bearer verifier: kind and revocation\<close>

lemma bearer_call_decoded:
  assumes "http_bearer e req = Inr token" and "decode_token e token = Some td"
  shows "bearer_call e b req =
     (if token_in_blocklist e (jti td) then Inl InvalidToken
      else case verify_token_data b td of Inl err \<Rightarrow> Inl err | Inr _ \<Rightarrow> Inr td)"
  using assms by (simp add: bearer_call_def token_valid_def)

lemma bearer_call_undecoded:
  assumes "http_bearer e req = Inr token" and "decode_token e token = None"
  shows "bearer_call e b req = Inl InvalidToken"
  using assms by (simp add: bearer_call_def)

text \<open>
  C2, as stated, fails: a refresh token whose \<open>jti\<close> is revoked, presented to the
  access-token verifier, is rejected with \<open>InvalidToken\<close>, not \<open>AccessTokenRequired\<close> (and
  a revoked access token presented to the refresh-token verifier likewise).
\<close>

theorem revoked_wrong_kind_counterexample:
  "decode_token (example_env True True) ''token-1'' = Some (example_claims True)
   \<and> refresh (example_claims True)
   \<and> token_in_blocklist (example_env True True) (jti (example_claims True))
   \<and> bearer_call (example_env True True) AccessTokenBearer (example_request ''10.0.0.1'')
     = Inl InvalidToken
   \<and> bearer_call (example_env False True) RefreshTokenBearer (example_request ''10.0.0.1'')
     = Inl InvalidToken"
  by (simp add: bearer_call_def token_valid_def example_env_def example_claims_def)

text \<open>
  C2, amended: the bearer verifier is a linear pipeline that queries the revocation store
  before it checks the token kind. A token that decodes and whose \<open>jti\<close> is revoked is
  rejected with \<open>InvalidToken\<close> by both verifiers, whatever its kind; the wrong-kind error
  (\<open>AccessTokenRequired\<close> or \<open>RefreshTokenRequired\<close>) is raised for a token of the wrong kind
  that is not revoked.
\<close>

theorem revocation_checked_before_kind:
  assumes "http_bearer e req = Inr token" and "decode_token e token = Some td"
  shows "(token_in_blocklist e (jti td) \<longrightarrow>
            bearer_call e AccessTokenBearer req = Inl InvalidToken
            \<and> bearer_call e RefreshTokenBearer req = Inl InvalidToken)
         \<and> (\<not> token_in_blocklist e (jti td) \<and> refresh td \<longrightarrow>
            bearer_call e AccessTokenBearer req = Inl AccessTokenRequired)
         \<and> (\<not> token_in_blocklist e (jti td) \<and> \<not> refresh td \<longrightarrow>
            bearer_call e RefreshTokenBearer req = Inl RefreshTokenRequired)"
  by (simp add: bearer_call_decoded [OF assms])

theorem revocation_checked_before_kind_witness:
  "bearer_call (example_env True True) AccessTokenBearer (example_request ''10.0.0.1'')
     = Inl InvalidToken
   \<and> bearer_call (example_env True False) AccessTokenBearer (example_request ''10.0.0.1'')
     = Inl AccessTokenRequired
   \<and> bearer_call (example_env False False) RefreshTokenBearer (example_request ''10.0.0.1'')
     = Inl RefreshTokenRequired"
  using
    revocation_checked_before_kind [of "example_env True True" "example_request ''10.0.0.1''"
      "''token-1''" "example_claims True"]
    revocation_checked_before_kind [of "example_env True False" "example_request ''10.0.0.1''"
      "''token-1''" "example_claims True"]
    revocation_checked_before_kind [of "example_env False False" "example_request ''10.0.0.1''"
      "''token-1''" "example_claims False"]
  by (simp add: example_env_def example_claims_def)

text \<open>
  C3: for a bearer token that decodes and whose \<open>jti\<close> is not revoked, an access token
  (refresh flag false) is returned with its claims by \<open>AccessTokenBearer\<close> and rejected
  with \<open>RefreshTokenRequired\<close> by \<open>RefreshTokenBearer\<close>; a refresh token is returned by
  \<open>RefreshTokenBearer\<close> and rejected with \<open>AccessTokenRequired\<close> by \<open>AccessTokenBearer\<close>.
\<close>

theorem token_kind_enforced:
  assumes "http_bearer e req = Inr token" and "decode_token e token = Some td"
    and "\<not> token_in_blocklist e (jti td)"
  shows "(\<not> refresh td \<longrightarrow>
            bearer_call e AccessTokenBearer req = Inr td
            \<and> bearer_call e RefreshTokenBearer req = Inl RefreshTokenRequired)
         \<and> (refresh td \<longrightarrow>
            bearer_call e RefreshTokenBearer req = Inr td
            \<and> bearer_call e AccessTokenBearer req = Inl AccessTokenRequired)"
  using assms(3) by (simp add: bearer_call_decoded [OF assms(1,2)])

theorem token_kind_enforced_witness:
  "bearer_call (example_env False False) AccessTokenBearer (example_request ''10.0.0.1'')
     = Inr (example_claims False)
   \<and> bearer_call (example_env False False) RefreshTokenBearer (example_request ''10.0.0.1'')
     = Inl RefreshTokenRequired
   \<and> bearer_call (example_env True False) RefreshTokenBearer (example_request ''10.0.0.1'')
     = Inr (example_claims True)
   \<and> bearer_call (example_env True False) AccessTokenBearer (example_request ''10.0.0.1'')
     = Inl AccessTokenRequired"
  using
    token_kind_enforced [of "example_env False False" "example_request ''10.0.0.1''"
      "''token-1''" "example_claims False"]
    token_kind_enforced [of "example_env True False" "example_request ''10.0.0.1''"
      "''token-1''" "example_claims True"]
  by (simp add: example_env_def example_claims_def)

text \<open>
  C4: a bearer token that decodes (so it has not expired) but whose \<open>jti\<close> is in the
  revocation store is rejected with \<open>InvalidToken\<close>, the error that a token which fails
  to decode is rejected with; this holds for every verifier.
\<close>

theorem revoked_token_is_invalid:
  assumes "http_bearer e req = Inr token"
  shows "(decode_token e token = None \<longrightarrow> bearer_call e b req = Inl InvalidToken)
         \<and> (decode_token e token = Some td \<and> token_in_blocklist e (jti td) \<longrightarrow>
              bearer_call e b req = Inl InvalidToken)"
  using bearer_call_decoded [OF assms, of td b] bearer_call_undecoded [OF assms, of b]
  by simp

theorem revoked_token_is_invalid_witness:
  "bearer_call (example_env False True) AccessTokenBearer (example_request ''10.0.0.1'')
     = Inl InvalidToken
   \<and> bearer_call (example_env False True\<lparr>http_bearer := (\<lambda>req. Inr ''garbage'')\<rparr>)
        AccessTokenBearer (example_request ''10.0.0.1'')
     = Inl InvalidToken"
  using
    revoked_token_is_invalid [of "example_env False True" "example_request ''10.0.0.1''"
      "''token-1''" AccessTokenBearer "example_claims False"]
    revoked_token_is_invalid
      [of "example_env False True\<lparr>http_bearer := (\<lambda>req. Inr ''garbage'')\<rparr>"
      "example_request ''10.0.0.1''" "''garbage''" AccessTokenBearer "example_claims False"]
  by (simp add: example_env_def example_claims_def)

section \<open>Identity and trust resolution: the order of the checks\<close>

lemma registered_stores_eq:
  "registered_stores =
     \<lparr>users = [example_user],
      known_ips = [\<lparr>kn_uid = 2, kn_ip = ''10.0.0.1'', kn_userUid = Some 1\<rparr>],
      banned_ips = [], verification_codes = [(1, ''123456'')]\<rparr>"
  by (simp add: registered_stores_def get_ip_address_def headers_get_def truthy_def py_or_def
      register_new_user_def get_user_by_email_or_uid_def select_first_def commit_user_def
      commit_known_ip_def store_verification_code_def example_services_def empty_stores_def
      example_form_def example_request_def example_user_def)

lemma example_request_ip: "a \<noteq> [] \<Longrightarrow> get_ip_address (example_request a) = Inr (Some a)"
  by (simp add: get_ip_address_def example_request_def headers_get_def py_or_Some)

lemma select_first_None: "select_first p rows = None \<longleftrightarrow> \<not> (\<exists>r\<in>set rows. p r)"
  by (auto simp: select_first_def find_None_iff)

lemma does_ip_exist_fst:
  assumes "get_ip_address req = Inr (Some a)"
  shows "fst (does_ip_exist u req s) =
     (if \<not> (\<exists>r\<in>set (known_ips s). kn_userUid r = Some (uid u) \<and> kn_ip r = a)
      then Inl UnknownIpConflict
      else if (\<exists>r\<in>set (banned_ips s). bn_ip r = a \<and> bn_userUid r = Some (uid u))
      then Inl BannedIp else Inr ())"
proof -
  let ?k = "select_first (\<lambda>r. kn_userUid r = Some (uid u) \<and> Some (kn_ip r) = Some a)
              (known_ips s)"
  let ?b = "select_first (\<lambda>r. Some (bn_ip r) = Some a \<and> bn_userUid r = Some (uid u))
              (banned_ips s)"
  have k: "?k = None \<longleftrightarrow>
      \<not> (\<exists>r\<in>set (known_ips s). kn_userUid r = Some (uid u) \<and> kn_ip r = a)"
    by (simp add: select_first_None)
  have b: "?b = None \<longleftrightarrow>
      \<not> (\<exists>r\<in>set (banned_ips s). bn_ip r = a \<and> bn_userUid r = Some (uid u))"
    by (simp add: select_first_None)
  show ?thesis
    unfolding does_ip_exist_def using assms k b
    by (cases ?k; cases ?b) auto
qed






lemma does_user_exist_fst:
  assumes "select_first (\<lambda>v. email v = em) (users s) = Some u"
  shows "fst (does_user_exist (Some em) ui req s) =
     (case fst (does_ip_exist u req s) of Inl err \<Rightarrow> Inl err | Inr _ \<Rightarrow> Inr u)"
  unfolding does_user_exist_def Let_def using assms
  by (auto split: sum.splits prod.splits)

lemma get_current_user_fst:
  assumes "select_first (\<lambda>v. email v = user_email td) (users s) = Some u"
  shows "fst (get_current_user td req s) =
     (case fst (does_ip_exist u req s) of
        Inl err \<Rightarrow> Inl err
      | Inr _ \<Rightarrow> if isBlocked u then Inl UserBlocked else Inr u)"
proof -
  note d = does_user_exist_fst [OF assms, of None req]
  show ?thesis
    unfolding get_current_user_def using d
    by (auto split: sum.splits prod.splits)
qed

text \<open>
  C1, as stated, fails: with \<open>10.0.0.7\<close> banned for \<open>u1\<close> but not among the known
  addresses of \<open>u1\<close>, resolution from \<open>10.0.0.7\<close> fails with \<open>UnknownIpConflict\<close>, not
  \<open>BannedIp\<close>.
\<close>

theorem ban_without_known_ip_counterexample:
  "\<lparr>bn_uid = 7, bn_ip = ''10.0.0.7'', bn_userUid = Some (uid example_user)\<rparr>
     \<in> set (banned_ips (banned_stores ''10.0.0.7''))
   \<and> get_ip_address (example_request ''10.0.0.7'') = Inr (Some ''10.0.0.7'')
   \<and> fst (does_ip_exist example_user (example_request ''10.0.0.7'')
            (banned_stores ''10.0.0.7'')) = Inl UnknownIpConflict
   \<and> fst (get_current_user (example_claims False) (example_request ''10.0.0.7'')
            (banned_stores ''10.0.0.7'')) = Inl UnknownIpConflict"
  by (simp add: banned_stores_def registered_stores_eq example_request_ip does_ip_exist_def
      get_current_user_def does_user_exist_def select_first_def example_user_def
      example_claims_def)

text \<open>
  C1, amended: for every user \<open>u\<close> and client address \<open>a\<close> with \<open>(u, a)\<close> in the
  \<open>BannedIps\<close> store, identity resolution fails with \<open>BannedIp\<close> when \<open>(u, a)\<close> is also in
  the \<open>KnownIps\<close> store (from \<^verbatim>\<open>does_ip_exist\<close> and, for the user the token names, from
  \<^verbatim>\<open>get_current_user\<close>, blocked or not), and with \<open>UnknownIpConflict\<close> when it is not: the
  ban overrides a known address, and the known-address check comes first.
\<close>

theorem ban_vetoes_known_ip:
  assumes "get_ip_address req = Inr (Some a)"
    and "\<exists>r\<in>set (banned_ips s). bn_ip r = a \<and> bn_userUid r = Some (uid u)"
  shows "((\<exists>r\<in>set (known_ips s). kn_userUid r = Some (uid u) \<and> kn_ip r = a) \<longrightarrow>
            fst (does_ip_exist u req s) = Inl BannedIp
            \<and> (select_first (\<lambda>v. email v = user_email td) (users s) = Some u \<longrightarrow>
                 fst (get_current_user td req s) = Inl BannedIp))
         \<and> (\<not> (\<exists>r\<in>set (known_ips s). kn_userUid r = Some (uid u) \<and> kn_ip r = a) \<longrightarrow>
            fst (does_ip_exist u req s) = Inl UnknownIpConflict)"
  using assms(2) does_ip_exist_fst [OF assms(1), of u s] get_current_user_fst [of td s u req]
  by auto

theorem ban_vetoes_known_ip_witness:
  "fst (does_ip_exist example_user (example_request ''10.0.0.1'') (banned_stores ''10.0.0.1''))
     = Inl BannedIp
   \<and> fst (get_current_user (example_claims False) (example_request ''10.0.0.1'')
            (banned_stores ''10.0.0.1'')) = Inl BannedIp
   \<and> fst (does_ip_exist example_user (example_request ''10.0.0.7'') (banned_stores ''10.0.0.7''))
     = Inl UnknownIpConflict"
  using
    ban_vetoes_known_ip [of "example_request ''10.0.0.1''" "''10.0.0.1''"
      "banned_stores ''10.0.0.1''" example_user "example_claims False"]
    ban_vetoes_known_ip [of "example_request ''10.0.0.7''" "''10.0.0.7''"
      "banned_stores ''10.0.0.7''" example_user "example_claims False"]
  by (simp add: banned_stores_def registered_stores_eq example_request_ip select_first_def
      example_user_def example_claims_def)

text \<open>
  C5: for an existing user with no \<open>KnownIps\<close> row for the resolved client address,
  identity resolution raises \<open>UnknownIpConflict\<close>, whatever the \<open>isBlocked\<close> flag and the
  \<open>BannedIps\<close> rows are: the known-address check is decided before the ban check and the
  block check.
\<close>

theorem unknown_ip_decided_first:
  assumes "select_first (\<lambda>v. email v = user_email td) (users s) = Some u"
    and "get_ip_address req = Inr (Some a)"
    and "\<not> (\<exists>r\<in>set (known_ips s). kn_userUid r = Some (uid u) \<and> kn_ip r = a)"
  shows "fst (does_ip_exist u req s) = Inl UnknownIpConflict
         \<and> fst (does_user_exist (Some (user_email td)) None req s) = Inl UnknownIpConflict
         \<and> fst (get_current_user td req s) = Inl UnknownIpConflict"
  using assms(3) does_ip_exist_fst [OF assms(2), of u s]
    get_current_user_fst [OF assms(1), of req] does_user_exist_fst [OF assms(1), of None req]
  by simp

theorem unknown_ip_decided_first_witness:
  "isBlocked (example_user\<lparr>isBlocked := True\<rparr>)
   \<and> \<lparr>bn_uid = 7, bn_ip = ''10.0.0.7'', bn_userUid = Some 1\<rparr>
       \<in> set (banned_ips (banned_stores ''10.0.0.7''))
   \<and> fst (get_current_user (example_claims False) (example_request ''10.0.0.7'')
          (banned_stores ''10.0.0.7''\<lparr>users := [example_user\<lparr>isBlocked := True\<rparr>]\<rparr>))
       = Inl UnknownIpConflict"
  using
    unknown_ip_decided_first [of "example_claims False"
      "banned_stores ''10.0.0.7''\<lparr>users := [example_user\<lparr>isBlocked := True\<rparr>]\<rparr>"
      "example_user\<lparr>isBlocked := True\<rparr>" "example_request ''10.0.0.7''" "''10.0.0.7''"]
  by (simp add: banned_stores_def registered_stores_eq example_request_ip select_first_def
      example_user_def example_claims_def)

section \<open>Registration and the allow-list: the known addresses\<close>

lemma commit_known_ip_Inr:
  assumes "commit_known_ip r s = (Inr x, s')"
  shows "s' = s\<lparr>known_ips := known_ips s @ [r]\<rparr>"
  using assms unfolding commit_known_ip_def by (auto split: if_splits)

lemma commit_known_ip_completes:
  assumes "\<not> (\<exists>q\<in>set (known_ips s). kn_uid q = kn_uid r)"
    and "\<exists>v\<in>set (users s). kn_userUid r = Some (uid v)"
  shows "commit_known_ip r s = (Inr (), s\<lparr>known_ips := known_ips s @ [r]\<rparr>)"
  using assms unfolding commit_known_ip_def by (auto simp: list_ex_iff split: option.splits)

lemma commit_user_Inr:
  assumes "commit_user u s = (Inr x, s')"
  shows "s' = s\<lparr>users := users s @ [u]\<rparr>"
  using assms unfolding commit_user_def by (auto split: if_splits)

lemma commit_user_completes:
  assumes "\<not> (\<exists>v\<in>set (users s). uid v = uid u \<or> email v = email u)"
  shows "commit_user u s = (Inr (), s\<lparr>users := users s @ [u]\<rparr>)"
  using assms unfolding commit_user_def by (auto simp: list_ex_iff)

lemma add_allowed_ip_Inr:
  assumes "add_allowed_ip u b ip_uid s = (Inr u', s')"
  shows "u' = u
         \<and> s' = s\<lparr>known_ips := known_ips s @
                    [\<lparr>kn_uid = ip_uid, kn_ip = b, kn_userUid = Some (uid u)\<rparr>]\<rparr>"
  using assms unfolding add_allowed_ip_def
  by (auto split: prod.splits sum.splits dest: commit_known_ip_Inr)

lemma add_allowed_ip_completes:
  assumes "\<not> (\<exists>q\<in>set (known_ips s). kn_uid q = ip_uid)"
    and "\<exists>v\<in>set (users s). uid v = uid u"
  shows "fst (add_allowed_ip u b ip_uid s) = Inr u"
proof -
  let ?r = "\<lparr>kn_uid = ip_uid, kn_ip = b, kn_userUid = Some (uid u)\<rparr>"
  have "commit_known_ip ?r s = (Inr (), s\<lparr>known_ips := known_ips s @ [?r]\<rparr>)"
    using assms by (intro commit_known_ip_completes) (auto intro: sym)
  then show ?thesis by (simp add: add_allowed_ip_def)
qed

lemma register_new_user_Inr:
  assumes "register_new_user sv permission form req new_uid ip_uid code s = (Inr c, s')"
  shows "\<exists>a. get_ip_address req = Inr (Some a)
           \<and> (\<exists>r\<in>set (known_ips s'). kn_ip r = a \<and> kn_userUid r = Some new_uid)
           \<and> (\<exists>v\<in>set (users s'). uid v = new_uid \<and> email v = form_email form)"
  using assms
  unfolding register_new_user_def get_user_by_email_or_uid_def Let_def
    store_verification_code_def
  by (auto split: sum.splits option.splits prod.splits if_splits
      dest!: commit_user_Inr commit_known_ip_Inr)

lemma register_new_user_completes:
  assumes "get_ip_address req = Inr (Some a)" and "get_location sv a = Some loc"
    and "\<not> (\<exists>v\<in>set (users s). uid v = new_uid \<or> email v = form_email form)"
    and "\<not> (\<exists>q\<in>set (known_ips s). kn_uid q = ip_uid)"
  shows "fst (register_new_user sv permission form req new_uid ip_uid code s) = Inr code"
proof -
  have none: "select_first (\<lambda>u. email u = form_email form) (users s) = None"
    using assms(3) by (auto simp: select_first_None)
  have cu: "\<And>u. uid u = new_uid \<Longrightarrow> email u = form_email form \<Longrightarrow>
      commit_user u s = (Inr (), s\<lparr>users := users s @ [u]\<rparr>)"
    using assms(3) by (intro commit_user_completes) auto
  have ck: "\<And>u. uid u = new_uid \<Longrightarrow>
      commit_known_ip \<lparr>kn_uid = ip_uid, kn_ip = a, kn_userUid = Some new_uid\<rparr>
        (s\<lparr>users := users s @ [u]\<rparr>)
      = (Inr (), s\<lparr>users := users s @ [u],
                   known_ips := known_ips s @
                     [\<lparr>kn_uid = ip_uid, kn_ip = a, kn_userUid = Some new_uid\<rparr>]\<rparr>)"
    using assms(4) by (subst commit_known_ip_completes) auto
  show ?thesis
    unfolding register_new_user_def get_user_by_email_or_uid_def Let_def
    using assms(1,2) none by (simp add: cu ck)
qed

lemma register_new_user_no_ProxyConflict:
  "fst (register_new_user sv permission form req new_uid ip_uid code s) \<noteq> Inl ProxyConflict"
  using get_ip_address_not_None [of req]
  unfolding register_new_user_def get_user_by_email_or_uid_def commit_user_def
    commit_known_ip_def Let_def
  by (auto split: sum.splits option.splits prod.splits if_splits dest: get_ip_address_Inl)

text \<open>
  C7: a registration that completes leaves a \<open>KnownIps\<close> row for the registering address
  and the new user (and the new user's row), and it completes when the address resolves,
  the geolocation lookup answers, and the email and the two fresh identifiers are unused.
  After \<^verbatim>\<open>add_allowed_ip(u, b)\<close> completes, \<^verbatim>\<open>does_ip_exist\<close> for \<open>u\<close> from client address \<open>b\<close>
  does not raise \<open>UnknownIpConflict\<close>, and it succeeds when \<open>b\<close> is not banned for \<open>u\<close>;
  \<^verbatim>\<open>add_allowed_ip\<close> completes when the user exists and the row identifier is unused.
\<close>

theorem allow_list_round_trip:
  "(register_new_user sv permission form req0 new_uid ip_uid code s0 = (Inr c, s1) \<longrightarrow>
      (\<exists>a. get_ip_address req0 = Inr (Some a)
           \<and> (\<exists>r\<in>set (known_ips s1). kn_ip r = a \<and> kn_userUid r = Some new_uid)
           \<and> (\<exists>v\<in>set (users s1). uid v = new_uid \<and> email v = form_email form)))
   \<and> (get_ip_address req0 = Inr (Some a) \<and> get_location sv a = Some loc
        \<and> \<not> (\<exists>v\<in>set (users s0). uid v = new_uid \<or> email v = form_email form)
        \<and> \<not> (\<exists>q\<in>set (known_ips s0). kn_uid q = ip_uid) \<longrightarrow>
      fst (register_new_user sv permission form req0 new_uid ip_uid code s0) = Inr code)
   \<and> (add_allowed_ip u b row_uid s = (Inr u', s') \<and> get_ip_address req = Inr (Some b) \<longrightarrow>
      fst (does_ip_exist u req s') \<noteq> Inl UnknownIpConflict
      \<and> (\<not> (\<exists>r\<in>set (banned_ips s). bn_ip r = b \<and> bn_userUid r = Some (uid u)) \<longrightarrow>
           fst (does_ip_exist u req s') = Inr ()))
   \<and> (\<not> (\<exists>q\<in>set (known_ips s). kn_uid q = row_uid) \<and> (\<exists>v\<in>set (users s). uid v = uid u) \<longrightarrow>
      fst (add_allowed_ip u b row_uid s) = Inr u)"
proof -
  have p1: "register_new_user sv permission form req0 new_uid ip_uid code s0 = (Inr c, s1) \<Longrightarrow>
      (\<exists>a. get_ip_address req0 = Inr (Some a)
           \<and> (\<exists>r\<in>set (known_ips s1). kn_ip r = a \<and> kn_userUid r = Some new_uid)
           \<and> (\<exists>v\<in>set (users s1). uid v = new_uid \<and> email v = form_email form))"
    by (rule register_new_user_Inr)
  have p2: "get_ip_address req0 = Inr (Some a) \<Longrightarrow> get_location sv a = Some loc \<Longrightarrow>
      \<not> (\<exists>v\<in>set (users s0). uid v = new_uid \<or> email v = form_email form) \<Longrightarrow>
      \<not> (\<exists>q\<in>set (known_ips s0). kn_uid q = ip_uid) \<Longrightarrow>
      fst (register_new_user sv permission form req0 new_uid ip_uid code s0) = Inr code"
    by (rule register_new_user_completes)
  have p3: "fst (does_ip_exist u req s') \<noteq> Inl UnknownIpConflict
      \<and> (\<not> (\<exists>r\<in>set (banned_ips s). bn_ip r = b \<and> bn_userUid r = Some (uid u)) \<longrightarrow>
           fst (does_ip_exist u req s') = Inr ())"
    if a: "add_allowed_ip u b row_uid s = (Inr u', s')" and g: "get_ip_address req = Inr (Some b)"
  proof -
    have s': "s' = s\<lparr>known_ips := known_ips s @
        [\<lparr>kn_uid = row_uid, kn_ip = b, kn_userUid = Some (uid u)\<rparr>]\<rparr>"
      using add_allowed_ip_Inr [OF a] by simp
    have k: "\<exists>r\<in>set (known_ips s'). kn_userUid r = Some (uid u) \<and> kn_ip r = b"
      by (simp add: s')
    have bn: "banned_ips s' = banned_ips s" by (simp add: s')
    show ?thesis
      using k by (simp add: does_ip_exist_fst [OF g] bn)
  qed
  have p4: "\<not> (\<exists>q\<in>set (known_ips s). kn_uid q = row_uid) \<Longrightarrow>
      (\<exists>v\<in>set (users s). uid v = uid u) \<Longrightarrow> fst (add_allowed_ip u b row_uid s) = Inr u"
    by (rule add_allowed_ip_completes)
  show ?thesis
    using p1 p2 p3 p4 by blast
qed

theorem allow_list_round_trip_witness:
  "fst (register_new_user example_services ''user'' example_form
          (example_request ''10.0.0.1'') 1 2 ''123456'' empty_stores) = Inr ''123456''
   \<and> \<lparr>kn_uid = 2, kn_ip = ''10.0.0.1'', kn_userUid = Some 1\<rparr> \<in> set (known_ips registered_stores)
   \<and> fst (does_ip_exist example_user (example_request ''10.0.0.2'') registered_stores)
       = Inl UnknownIpConflict
   \<and> fst (add_allowed_ip example_user ''10.0.0.2'' 3 registered_stores) = Inr example_user
   \<and> fst (does_ip_exist example_user (example_request ''10.0.0.2'')
            (snd (add_allowed_ip example_user ''10.0.0.2'' 3 registered_stores))) = Inr ()"
  using
    allow_list_round_trip [where sv = example_services and permission = "''user''"
      and form = example_form and ?req0.0 = "example_request ''10.0.0.1''" and new_uid = 1
      and ip_uid = 2 and code = "''123456''" and ?s0.0 = empty_stores and c = "''123456''"
      and ?s1.0 = registered_stores and a = "''10.0.0.1''"
      and loc = "\<lparr>loc_country = Some ''Nigeria'', loc_country_code = Some ''NG'',
                  loc_country_calling_code = Some ''+234'',
                  loc_currency = Some ''NGN'', loc_in_eu = False\<rparr>"
      and u = example_user and b = "''10.0.0.2''" and row_uid = 3 and s = registered_stores
      and u' = example_user
      and s' = "snd (add_allowed_ip example_user ''10.0.0.2'' 3 registered_stores)"
      and req = "example_request ''10.0.0.2''"]
  by (simp add: registered_stores_eq example_request_ip does_ip_exist_def select_first_def
      add_allowed_ip_def commit_known_ip_def example_user_def example_services_def
      empty_stores_def example_form_def)

text \<open>
  C10 against the code: \<^verbatim>\<open>get_ip_address\<close> does not return for every request. On a
  recognized host, with no \<^verbatim>\<open>next-ip\<close> and no \<^verbatim>\<open>X-Forwarded-For\<close> header and no peer address
  (\<^verbatim>\<open>request.client\<close> is \<^verbatim>\<open>None\<close>), it raises \<open>AttributeError\<close> instead of falling back to
  \<open>127.0.0.1\<close>, with or without an \<^verbatim>\<open>X-Real-IP\<close> header, and so does a registration from
  that request.
\<close>

theorem get_ip_address_no_peer_raises:
  "get_ip_address \<lparr>headers = [], hostname = Some ''localhost'', client = None\<rparr>
     = Inl AttributeError
   \<and> get_ip_address \<lparr>headers = [(''x-real-ip'', ''10.4.4.4'')], hostname = Some ''localhost'',
                      client = None\<rparr> = Inl AttributeError
   \<and> fst (register_new_user example_services ''user'' example_form
            \<lparr>headers = [], hostname = Some ''localhost'', client = None\<rparr>
            1 2 ''123456'' empty_stores) = Inl AttributeError"
  by (simp add: get_ip_address_def headers_get_def truthy_def recognized_hosts_def
      register_new_user_def get_user_by_email_or_uid_def select_first_def example_form_def
      empty_stores_def)

text \<open>
  What the code does guarantee: \<^verbatim>\<open>get_ip_address\<close> never returns \<^verbatim>\<open>None\<close>, whatever it returns
  is a non-empty string, it returns one for every request that has a peer address, and
  \<^verbatim>\<open>register_new_user\<close> never raises \<open>ProxyConflict\<close>.
\<close>

theorem proxy_conflict_unreachable:
  "get_ip_address req \<noteq> Inr None
   \<and> (\<forall>v. get_ip_address req = Inr (Some v) \<longrightarrow> v \<noteq> [])
   \<and> (client req \<noteq> None \<longrightarrow> (\<exists>v. get_ip_address req = Inr (Some v) \<and> v \<noteq> []))
   \<and> fst (register_new_user sv permission form req new_uid ip_uid code s) \<noteq> Inl ProxyConflict"
  using get_ip_address_result [of req] get_ip_address_peer [of req]
    register_new_user_no_ProxyConflict [of sv permission form req new_uid ip_uid code s]
  by auto

theorem proxy_conflict_unreachable_witness:
  "get_ip_address \<lparr>headers = [], hostname = Some ''localhost'', client = Some ''10.0.0.1''\<rparr>
     = Inr (Some ''10.0.0.1'')
   \<and> fst (register_new_user example_services ''company'' example_form
            \<lparr>headers = [], hostname = Some ''localhost'', client = Some ''10.0.0.1''\<rparr>
            1 2 ''123456'' empty_stores) = Inr ''123456''"
  using proxy_conflict_unreachable
    [of "\<lparr>headers = [], hostname = Some ''localhost'', client = Some ''10.0.0.1''\<rparr>"
        example_services "''company''" example_form 1 2 "''123456''" empty_stores]
  by (simp add: get_ip_address_def headers_get_def truthy_def py_or_def recognized_hosts_def
      register_new_user_def get_user_by_email_or_uid_def select_first_def commit_user_def
      commit_known_ip_def store_verification_code_def example_services_def empty_stores_def
      example_form_def)

section \<open>Which operations write the address rows\<close>











end
